theory Spec2Isabelle
  imports Main "HOL-Library.Word"
begin

section \<open>JavaScript values used by the page component\<close>

text \<open>
  The component under study is \<^verbatim>\<open>src/app/movie_main/page.tsx\<close>. A JavaScript string is
  a sequence of 16-bit code units; \<open>js\<close> turns an ASCII literal of the source into that
  representation.
\<close>

type_synonym jsstring = "16 word list"

definition js :: "string \<Rightarrow> jsstring" where
  "js cs = map of_char cs"

text \<open>
  \<^verbatim>\<open>String.prototype.trim\<close> strips the ECMAScript WhiteSpace and LineTerminator code
  points from both ends: TAB, LF, VT, FF, CR, SPACE, NBSP, U+1680, U+2000..U+200A,
  U+2028, U+2029, U+202F, U+205F, U+3000 and U+FEFF.
\<close>

definition is_ws :: "16 word \<Rightarrow> bool" where
  "is_ws c = (c = 0x09 \<or> c = 0x0A \<or> c = 0x0B \<or> c = 0x0C \<or> c = 0x0D \<or> c = 0x20
      \<or> c = 0xA0 \<or> c = 0x1680 \<or> (0x2000 \<le> c \<and> c \<le> 0x200A)
      \<or> c = 0x2028 \<or> c = 0x2029 \<or> c = 0x202F \<or> c = 0x205F \<or> c = 0x3000
      \<or> c = 0xFEFF)"

definition trim :: "jsstring \<Rightarrow> jsstring" where
  "trim cs = rev (dropWhile is_ws (rev (dropWhile is_ws cs)))"

text \<open>
  \<^verbatim>\<open>encodeURIComponent\<close> throws a URIError exactly when its argument holds a surrogate
  code unit that is not part of a pair. The escaped text itself is not modelled: a
  request below carries the text the URL is built from.
\<close>

fun well_formed :: "jsstring \<Rightarrow> bool" where
  "well_formed [] = True"
| "well_formed (c # cs) =
     (if 0xD800 \<le> c \<and> c \<le> 0xDBFF then
        (case cs of
           [] \<Rightarrow> False
         | d # ds \<Rightarrow> 0xDC00 \<le> d \<and> d \<le> 0xDFFF \<and> well_formed ds)
      else if 0xDC00 \<le> c \<and> c \<le> 0xDFFF then False
      else well_formed cs)"

text \<open>
  The JavaScript numbers this component can hold are the doubles that \<^verbatim>\<open>parseInt\<close>
  returns: \<open>NaN\<close>, the two infinities, negative zero, and doubles with an integer
  value, which \<open>Num\<close> carries as that integer.
\<close>

datatype jsnum = NaN | Num int | NegZero | Infinity | NegInfinity

text \<open>
  \<^verbatim>\<open>n >= t\<close> and \<^verbatim>\<open>n < t\<close> for an integer \<open>n\<close> (the length of an array): every
  comparison with NaN is false, and negative zero compares as zero.
\<close>

fun js_ge :: "int \<Rightarrow> jsnum \<Rightarrow> bool" where
  "js_ge n NaN = False"
| "js_ge n (Num t) = (n \<ge> t)"
| "js_ge n NegZero = (n \<ge> 0)"
| "js_ge n Infinity = False"
| "js_ge n NegInfinity = True"


fun js_negate :: "jsnum \<Rightarrow> jsnum" where
  "js_negate NaN = NaN"
| "js_negate (Num v) = (if v = 0 then NegZero else Num (- v))"
| "js_negate NegZero = Num 0"
| "js_negate Infinity = NegInfinity"
| "js_negate NegInfinity = Infinity"

text \<open>
  The double nearest to a natural number, ties to the even significand: below \<open>2 ^ 53\<close>
  every integer is a double; above, the number is cut to its leading 53 bits and rounded,
  and a result of \<open>2 ^ 1024\<close> or more is \<open>Infinity\<close>.
\<close>

fun bit_length :: "nat \<Rightarrow> nat" where
  "bit_length m = (if m = 0 then 0 else Suc (bit_length (m div 2)))"

definition to_double :: "nat \<Rightarrow> jsnum" where
  "to_double m =
     (if m < 2 ^ 53 then Num (int m)
      else
        let e = bit_length m - 53;
            q = m div 2 ^ e;
            r = m mod 2 ^ e;
            h = 2 ^ (e - 1);
            q' = (if h < r \<or> (r = h \<and> odd q) then q + 1 else q)
        in if 2 ^ 1024 \<le> q' * 2 ^ e then Infinity else Num (int (q' * 2 ^ e)))"

definition is_digit :: "16 word \<Rightarrow> bool" where
  "is_digit c = (0x30 \<le> c \<and> c \<le> 0x39)"

fun digits_value :: "nat \<Rightarrow> jsstring \<Rightarrow> nat" where
  "digits_value acc [] = acc"
| "digits_value acc (c # cs) = digits_value (10 * acc + (unat c - 48)) cs"

text \<open>
  \<^verbatim>\<open>parseInt(text, 10)\<close>: leading white space is skipped, one sign is read, then the
  longest run of decimal digits; no digit at all gives NaN. The value of the digits is
  converted to a double, and negated after a minus sign. (For more than 20 significant
  digits the language lets an engine round less exactly; the conversion here is the
  exact one, as the common engines compute it.)
\<close>

definition parseInt10 :: "jsstring \<Rightarrow> jsnum" where
  "parseInt10 text =
     (let S = dropWhile is_ws text;
          neg = (S \<noteq> [] \<and> hd S = 0x2D);
          S' = (if S \<noteq> [] \<and> (hd S = 0x2D \<or> hd S = 0x2B) then tl S else S);
          Z = takeWhile is_digit S'
      in if Z = [] then NaN
         else if neg then js_negate (to_double (digits_value 0 Z))
         else to_double (digits_value 0 Z))"

text \<open>
  The decimal numeral of a natural number, as the provider writes the total of a search.
\<close>

definition digit_char :: "nat \<Rightarrow> 16 word" where
  "digit_char k = of_nat (48 + k)"

fun decimal :: "nat \<Rightarrow> jsstring" where
  "decimal n =
     (if n < 10 then [digit_char n] else decimal (n div 10) @ [digit_char (n mod 10)])"

text \<open>
  \<^verbatim>\<open>x || fallback\<close> for an optional string \<open>x\<close>: \<^verbatim>\<open>undefined\<close> and the empty string
  are falsy.
\<close>

fun or_else :: "jsstring option \<Rightarrow> jsstring \<Rightarrow> jsstring" where
  "or_else None fallback = fallback"
| "or_else (Some x) fallback = (if x = [] then fallback else x)"

section \<open>Data of the component\<close>

record OmdbMovie =
  Title :: jsstring
  Year :: jsstring
  imdbID :: jsstring
  Poster :: jsstring

text \<open>
  The type \<^verbatim>\<open>OmdbSearchResponse\<close>. Its fields carry the prefix \<open>resp_\<close>, since
  \<^verbatim>\<open>totalResults\<close> is also a state variable of the component.
\<close>

record OmdbSearchResponse =
  resp_Search :: "OmdbMovie list option"
  resp_totalResults :: "jsstring option"
  resp_Response :: jsstring
  resp_Error :: "jsstring option"

text \<open>
  The detail lookup answers with an untyped JSON object (\<^verbatim>\<open>any\<close> in the source); these
  are the properties the component reads from it, each possibly absent.
\<close>

record OmdbDetail =
  det_Response :: "jsstring option"
  det_Error :: "jsstring option"
  det_Title :: "jsstring option"
  det_Year :: "jsstring option"
  det_Runtime :: "jsstring option"
  det_Genre :: "jsstring option"
  det_Plot :: "jsstring option"
  det_Actors :: "jsstring option"
  det_Director :: "jsstring option"
  det_imdbRating :: "jsstring option"
  det_Poster :: "jsstring option"

text \<open>The eight \<^verbatim>\<open>useState\<close> variables of \<^verbatim>\<open>MoviePage\<close>, and their initial values.\<close>

record MoviePage =
  search :: jsstring
  movies :: "OmdbMovie list"
  selectedMovie :: "OmdbDetail option"
  loadingMovies :: bool
  loadingDetails :: bool
  error :: "jsstring option"
  page :: int
  totalResults :: jsnum


text \<open>
  What the awaited part of a \<^verbatim>\<open>try\<close> block yields: the parsed body, or an exception
  (a rejected \<^verbatim>\<open>fetch\<close>, a body that is not JSON, a body that is \<^verbatim>\<open>null\<close>).
\<close>

datatype 'a outcome = Thrown | Resolved 'a

text \<open>
  A request stands for the URL that is fetched: the search URL is built from the query
  text and the page number, the detail URL from the identifier (the access key is a
  constant of the page).
\<close>

datatype request = SearchRequest jsstring int | DetailRequest jsstring

section \<open>Operations of the component\<close>

definition placeholder :: jsstring where
  "placeholder = js ''https://via.placeholder.com/400x600?text=No+Poster''"

fun posterFor :: "jsstring option \<Rightarrow> jsstring" where
  "posterFor None = placeholder"
| "posterFor (Some poster) =
     (if poster \<noteq> [] \<and> poster \<noteq> js ''N/A'' then poster else placeholder)"

text \<open>
  An asynchronous operation is modelled run to completion, with no other event between
  its call and the handling of its response: it takes the state at the call and the
  network as a function \<open>net\<close> from the request to its outcome, and returns the state
  after the response was handled together with the requests it issued. The calls of
  \<^verbatim>\<open>console.error\<close> write to the log only and are left out.

  The body of \<^verbatim>\<open>fetchMovies\<close> after the awaited response, by branch.
\<close>

definition fetchMovies_failed :: "OmdbSearchResponse \<Rightarrow> MoviePage \<Rightarrow> MoviePage" where
  "fetchMovies_failed data s =
     s\<lparr> error := Some (or_else (resp_Error data) (js ''No results'')),
        movies := [],
        totalResults := Num 0 \<rparr>"

text \<open>\<^verbatim>\<open>data.Search || []\<close>: an array, even an empty one, is truthy.\<close>

definition searchItems :: "OmdbSearchResponse \<Rightarrow> OmdbMovie list" where
  "searchItems data = (case resp_Search data of None \<Rightarrow> [] | Some ms \<Rightarrow> ms)"

definition fetchMovies_ok ::
  "OmdbSearchResponse \<Rightarrow> int \<Rightarrow> bool \<Rightarrow> MoviePage \<Rightarrow> MoviePage" where
  "fetchMovies_ok data pageParam append' s =
     s\<lparr> movies := (if append' then movies s @ searchItems data else searchItems data),
        totalResults := parseInt10 (or_else (resp_totalResults data) (js ''0'')),
        page := pageParam \<rparr>"

definition fetchMovies_catch :: "MoviePage \<Rightarrow> MoviePage" where
  "fetchMovies_catch s =
     s\<lparr> error := Some (js ''Failed to fetch movies. Check your network or API key.'') \<rparr>"

definition fetchMovies ::
  "(request \<Rightarrow> OmdbSearchResponse outcome) \<Rightarrow> int \<Rightarrow> bool \<Rightarrow> MoviePage
     \<Rightarrow> MoviePage \<times> request list" where
  "fetchMovies net pageParam append' s =
     (if trim (search s) = [] then (s, [])
      else
        let s1 = s\<lparr> loadingMovies := True, error := None \<rparr> in
        if \<not> well_formed (search s)
        then ((fetchMovies_catch s1)\<lparr> loadingMovies := False \<rparr>, [])
        else
          let url = SearchRequest (search s) pageParam;
              s2 = (case net url of
                      Thrown \<Rightarrow> fetchMovies_catch s1
                    | Resolved data \<Rightarrow>
                        if resp_Response data = js ''False''
                        then fetchMovies_failed data s1
                        else fetchMovies_ok data pageParam append' s1)
          in (s2\<lparr> loadingMovies := False \<rparr>, [url]))"

definition fetchMovieDetails ::
  "(request \<Rightarrow> OmdbDetail outcome) \<Rightarrow> jsstring \<Rightarrow> MoviePage \<Rightarrow> MoviePage \<times> request list" where
  "fetchMovieDetails net ident s =
     (if ident = [] then (s, [])
      else
        let s1 = s\<lparr> loadingDetails := True, error := None \<rparr> in
        if \<not> well_formed ident
        then (s1\<lparr> error := Some (js ''Failed to fetch movie details.''),
                  loadingDetails := False \<rparr>, [])
        else
          let url = DetailRequest ident;
              s2 = (case net url of
                      Thrown \<Rightarrow> s1\<lparr> error := Some (js ''Failed to fetch movie details.'') \<rparr>
                    | Resolved data \<Rightarrow>
                        if det_Response data = Some (js ''False'')
                        then s1\<lparr> error := Some (or_else (det_Error data)
                                              (js ''Failed to load movie details.'')),
                                 selectedMovie := None \<rparr>
                        else s1\<lparr> selectedMovie := Some data \<rparr>)
          in (s2\<lparr> loadingDetails := False \<rparr>, [url]))"

definition loadMore_next :: "MoviePage \<Rightarrow> int" where
  "loadMore_next s = page s + 1"

definition loadMore ::
  "(request \<Rightarrow> OmdbSearchResponse outcome) \<Rightarrow> MoviePage \<Rightarrow> MoviePage \<times> request list" where
  "loadMore net s =
     (let next = loadMore_next s in
      if js_ge (int (length (movies s))) (totalResults s) then (s, [])
      else fetchMovies net next True s)"



text \<open>The search box: typing, the Enter key and the Search button.\<close>

definition setSearch :: "jsstring \<Rightarrow> MoviePage \<Rightarrow> MoviePage" where
  "setSearch text s = s\<lparr> search := text \<rparr>"


text \<open>
  The three ways out of the modal: the key listener on the window, the click on the
  overlay, and the close button (whose click does not reach the overlay, the inner
  panel stops its propagation).
\<close>

definition setSelectedMovie :: "OmdbDetail option \<Rightarrow> MoviePage \<Rightarrow> MoviePage" where
  "setSelectedMovie v s = s\<lparr> selectedMovie := v \<rparr>"

definition onKey :: "jsstring \<Rightarrow> MoviePage \<Rightarrow> MoviePage" where
  "onKey key s = (if key = js ''Escape'' then setSelectedMovie None s else s)"

definition overlay_onClick :: "MoviePage \<Rightarrow> MoviePage" where
  "overlay_onClick s = setSelectedMovie None s"

definition close_onClick :: "MoviePage \<Rightarrow> MoviePage" where
  "close_onClick s = setSelectedMovie None s"


section \<open>A small session, for evaluating the operations\<close>

definition movieA :: OmdbMovie where
  "movieA = \<lparr> Title = js ''Batman'', Year = js ''1989'', imdbID = js ''tt1'',
     Poster = js ''N/A'' \<rparr>"

definition movieB :: OmdbMovie where
  "movieB = \<lparr> Title = js ''Batman Returns'', Year = js ''1992'', imdbID = js ''tt2'',
     Poster = js ''http://img/2.jpg'' \<rparr>"

definition movieC :: OmdbMovie where
  "movieC = \<lparr> Title = js ''Superman'', Year = js ''1978'', imdbID = js ''tt3'',
     Poster = js ''http://img/3.jpg'' \<rparr>"

definition found :: "OmdbMovie list \<Rightarrow> string \<Rightarrow> OmdbSearchResponse" where
  "found ms n = \<lparr> resp_Search = Some ms, resp_totalResults = Some (js n),
     resp_Response = js ''True'', resp_Error = None \<rparr>"

definition not_found :: OmdbSearchResponse where
  "not_found = \<lparr> resp_Search = None, resp_totalResults = None,
     resp_Response = js ''False'', resp_Error = Some (js ''Movie not found!'') \<rparr>"

definition count_only :: OmdbSearchResponse where
  "count_only = \<lparr> resp_Search = None, resp_totalResults = Some (js ''5''),
     resp_Response = js ''True'', resp_Error = None \<rparr>"

definition no_total :: OmdbSearchResponse where
  "no_total = \<lparr> resp_Search = Some [movieC], resp_totalResults = None,
     resp_Response = js ''True'', resp_Error = None \<rparr>"

text \<open>
  A network that knows two pages for the query \<open>a\<close>, a second page for \<open>b\<close>, a first
  page only for \<open>f\<close>, a total without items for \<open>e\<close>, items without a total for \<open>n\<close>
  and a total beyond \<open>2 ^ 53\<close> for \<open>h\<close>; it reports a failure for \<open>x\<close> and is
  unreachable otherwise.
\<close>

fun demo_net :: "request \<Rightarrow> OmdbSearchResponse outcome" where
  "demo_net (SearchRequest q p) =
     (if q = js ''a'' \<and> p = 1 then Resolved (found [movieA] ''2'')
      else if q = js ''a'' \<and> p = 2 then Resolved (found [movieB] ''2'')
      else if q = js ''b'' \<and> p = 2 then Resolved (found [movieC] ''9'')
      else if q = js ''f'' \<and> p = 1 then Resolved (found [movieA] ''2'')
      else if q = js ''f'' then Resolved not_found
      else if q = js ''e'' then Resolved count_only
      else if q = js ''n'' then Resolved no_total
      else if q = js ''h'' then Resolved (found [movieA] ''9007199254740993'')
      else if q = js ''x'' then Resolved not_found
      else Thrown)"
| "demo_net (DetailRequest i) = Thrown"

definition detailA :: OmdbDetail where
  "detailA = \<lparr> det_Response = Some (js ''True''), det_Error = None,
     det_Title = Some (js ''Batman''), det_Year = Some (js ''1989''),
     det_Runtime = Some (js ''126 min''), det_Genre = Some (js ''Action, Adventure''),
     det_Plot = Some (js ''N/A''), det_Actors = None, det_Director = None,
     det_imdbRating = Some (js ''7.5''), det_Poster = Some (js ''N/A'') \<rparr>"

definition detail_failed :: OmdbDetail where
  "detail_failed = \<lparr> det_Response = Some (js ''False''),
     det_Error = Some (js ''Incorrect IMDb ID.''),
     det_Title = None, det_Year = None, det_Runtime = None, det_Genre = None,
     det_Plot = None, det_Actors = None, det_Director = None, det_imdbRating = None,
     det_Poster = None \<rparr>"

fun demo_details :: "request \<Rightarrow> OmdbDetail outcome" where
  "demo_details (DetailRequest i) =
     (if i = js ''tt1'' then Resolved detailA
      else if i = js ''bad'' then Resolved detail_failed
      else Thrown)"
| "demo_details (SearchRequest q p) = Thrown"

text \<open>The page after a first search for \<open>a\<close> and a click on its only card.\<close>

definition loaded :: MoviePage where
  "loaded = \<lparr> search = js ''a'', movies = [movieA], selectedMovie = Some detailA,
     loadingMovies = False, loadingDetails = False, error = None, page = 1,
     totalResults = Num 2 \<rparr>"



section \<open>Reading the total of a response\<close>

declare bit_length.simps [simp del] decimal.simps [simp del]












section \<open>Requests issued by an operation\<close>

lemma dropWhile_all: "(\<forall>x \<in> set (dropWhile P q). P x) \<longleftrightarrow> (\<forall>x \<in> set q. P x)"
proof
  assume a: "\<forall>x \<in> set (dropWhile P q). P x"
  have "dropWhile P q = []"
  proof (rule ccontr)
    assume n: "dropWhile P q \<noteq> []"
    then have "\<not> P (hd (dropWhile P q))" by (rule hd_dropWhile)
    moreover have "hd (dropWhile P q) \<in> set (dropWhile P q)" using n by simp
    ultimately show False using a by blast
  qed
  then show "\<forall>x \<in> set q. P x" by (simp add: dropWhile_eq_Nil_conv)
next
  assume "\<forall>x \<in> set q. P x"
  then show "\<forall>x \<in> set (dropWhile P q). P x" by (meson set_dropWhileD)
qed

text \<open>A text trims to the empty string exactly when all of it is white space.\<close>

lemma trim_blank: "trim q = [] \<longleftrightarrow> (\<forall>c \<in> set q. is_ws c)"
  by (simp add: trim_def dropWhile_all)

lemma fetchMovies_requests:
  "snd (fetchMovies net p a s) =
     (if trim (search s) \<noteq> [] \<and> well_formed (search s)
      then [SearchRequest (search s) p] else [])"
  by (simp add: fetchMovies_def Let_def)

lemma fetchMovieDetails_requests:
  "snd (fetchMovieDetails net ident s) =
     (if ident \<noteq> [] \<and> well_formed ident then [DetailRequest ident] else [])"
  by (simp add: fetchMovieDetails_def Let_def)

lemma or_else_nonempty: "fallback \<noteq> [] \<Longrightarrow> or_else x fallback \<noteq> []"
  by (cases x) auto


text \<open>The state an issued search request leaves behind, by outcome.\<close>

lemma fetchMovies_resolved_False:
  assumes "snd (fetchMovies net p a s) = [r]" and "net r = Resolved d"
    and "resp_Response d = js ''False''"
  shows "fst (fetchMovies net p a s) =
     s\<lparr> loadingMovies := False, error := Some (or_else (resp_Error d) (js ''No results'')),
        movies := [], totalResults := Num 0 \<rparr>"
proof -
  from assms(1) have "trim (search s) \<noteq> []" and "well_formed (search s)"
    and "r = SearchRequest (search s) p"
    by (auto simp: fetchMovies_requests split: if_splits)
  with assms(2,3) show ?thesis
    by (simp add: fetchMovies_def Let_def fetchMovies_failed_def)
qed


text \<open>
  An exception in the \<^verbatim>\<open>try\<close> block of \<^verbatim>\<open>fetchMovies\<close> is not a response: the
  \<^verbatim>\<open>catch\<close> branch sets its own message and leaves the results as they were.
\<close>

lemma fetchMovies_thrown:
  assumes "snd (fetchMovies net p a s) = [r]" and "net r = Thrown"
  shows "fst (fetchMovies net p a s) =
     s\<lparr> loadingMovies := False,
        error := Some (js ''Failed to fetch movies. Check your network or API key.'') \<rparr>"
proof -
  from assms(1) have "trim (search s) \<noteq> []" and "well_formed (search s)"
    and "r = SearchRequest (search s) p"
    by (auto simp: fetchMovies_requests split: if_splits)
  with assms(2) show ?thesis
    by (simp add: fetchMovies_def Let_def fetchMovies_catch_def)
qed

text \<open>Likewise for the detail lookup: the \<^verbatim>\<open>catch\<close> branch keeps the selection.\<close>

lemma fetchMovieDetails_thrown:
  assumes "snd (fetchMovieDetails net ident s) = [r]" and "net r = Thrown"
  shows "fst (fetchMovieDetails net ident s) =
     s\<lparr> loadingDetails := False, error := Some (js ''Failed to fetch movie details.'') \<rparr>"
proof -
  from assms(1) have "ident \<noteq> []" and "well_formed ident" and "r = DetailRequest ident"
    by (auto simp: fetchMovieDetails_requests split: if_splits)
  with assms(2) show ?thesis
    by (simp add: fetchMovieDetails_def Let_def)
qed



section \<open>Claims\<close>

text \<open>
  C1. A search request answered with \<^verbatim>\<open>Response: "False"\<close> leaves the result collection
  empty and the total at zero, whatever they were before and whatever \<open>append\<close> was; the
  error message is the provider's \<^verbatim>\<open>Error\<close> text, or \<open>No results\<close> when that is absent
  or empty.
\<close>

theorem failed_search_resets_results:
  assumes "snd (fetchMovies net p a s) = [r]" and "net r = Resolved d"
    and "resp_Response d = js ''False''"
  shows "movies (fst (fetchMovies net p a s)) = []
       \<and> totalResults (fst (fetchMovies net p a s)) = Num 0
       \<and> error (fst (fetchMovies net p a s))
           = Some (case resp_Error d of
                     None \<Rightarrow> js ''No results''
                   | Some m \<Rightarrow> if m = [] then js ''No results'' else m)"
  using fetchMovies_resolved_False [OF assms]
  by (cases "resp_Error d") simp_all

theorem failed_search_resets_results_witness:
  "snd (fetchMovies demo_net 2 True (setSearch (js ''x'') loaded)) = [SearchRequest (js ''x'') 2]
   \<and> demo_net (SearchRequest (js ''x'') 2) = Resolved not_found
   \<and> resp_Response not_found = js ''False''
   \<and> movies (setSearch (js ''x'') loaded) = [movieA]
   \<and> movies (fst (fetchMovies demo_net 2 True (setSearch (js ''x'') loaded))) = []
   \<and> totalResults (fst (fetchMovies demo_net 2 True (setSearch (js ''x'') loaded))) = Num 0
   \<and> error (fst (fetchMovies demo_net 2 True (setSearch (js ''x'') loaded)))
       = Some (js ''Movie not found!'')"
proof -
  have h1: "snd (fetchMovies demo_net 2 True (setSearch (js ''x'') loaded))
      = [SearchRequest (js ''x'') 2]"
    by (simp add: fetchMovies_requests setSearch_def loaded_def js_def trim_def is_ws_def)
  have h2: "demo_net (SearchRequest (js ''x'') 2) = Resolved not_found"
    by (simp add: js_def)
  have h3: "resp_Response not_found = js ''False''"
    by (simp add: not_found_def)
  have h4: "movies (setSearch (js ''x'') loaded) = [movieA]"
    by (simp add: setSearch_def loaded_def)
  have h5: "resp_Error not_found = Some (js ''Movie not found!'')"
    by (simp add: not_found_def)
  show ?thesis
    using failed_search_resets_results [OF h1 h2 h3] h1 h2 h3 h4 h5
    by (simp add: js_def)
qed

text \<open>
  C2. A detail request answered with \<^verbatim>\<open>Response: "False"\<close> leaves no selection, whatever
  was selected before, and sets an error message: the provider's \<^verbatim>\<open>Error\<close> text, or
  \<open>Failed to load movie details.\<close> when that is absent or empty.
\<close>

theorem failed_details_clear_selection:
  assumes "snd (fetchMovieDetails net ident s) = [r]" and "net r = Resolved d"
    and "det_Response d = Some (js ''False'')"
  shows "selectedMovie (fst (fetchMovieDetails net ident s)) = None
       \<and> error (fst (fetchMovieDetails net ident s))
           = Some (or_else (det_Error d) (js ''Failed to load movie details.''))
       \<and> or_else (det_Error d) (js ''Failed to load movie details.'') \<noteq> []"
proof -
  from assms(1) have "ident \<noteq> []" and "well_formed ident" and "r = DetailRequest ident"
    by (auto simp: fetchMovieDetails_requests split: if_splits)
  with assms(2,3) have
    "selectedMovie (fst (fetchMovieDetails net ident s)) = None
       \<and> error (fst (fetchMovieDetails net ident s))
           = Some (or_else (det_Error d) (js ''Failed to load movie details.''))"
    by (simp add: fetchMovieDetails_def Let_def)
  moreover have "or_else (det_Error d) (js ''Failed to load movie details.'') \<noteq> []"
    by (rule or_else_nonempty) (simp add: js_def)
  ultimately show ?thesis by simp
qed

theorem failed_details_clear_selection_witness:
  "snd (fetchMovieDetails demo_details (js ''bad'') loaded) = [DetailRequest (js ''bad'')]
   \<and> demo_details (DetailRequest (js ''bad'')) = Resolved detail_failed
   \<and> det_Response detail_failed = Some (js ''False'')
   \<and> selectedMovie loaded = Some detailA
   \<and> selectedMovie (fst (fetchMovieDetails demo_details (js ''bad'') loaded)) = None
   \<and> error (fst (fetchMovieDetails demo_details (js ''bad'') loaded))
       = Some (js ''Incorrect IMDb ID.'')"
proof -
  have h1: "snd (fetchMovieDetails demo_details (js ''bad'') loaded)
      = [DetailRequest (js ''bad'')]"
    by (simp add: fetchMovieDetails_requests js_def)
  have h2: "demo_details (DetailRequest (js ''bad'')) = Resolved detail_failed"
    by (simp add: js_def)
  have h3: "det_Response detail_failed = Some (js ''False'')"
    by (simp add: detail_failed_def)
  have h4: "selectedMovie loaded = Some detailA"
    by (simp add: loaded_def)
  have h5: "det_Error detail_failed = Some (js ''Incorrect IMDb ID.'')"
    by (simp add: detail_failed_def)
  show ?thesis
    using failed_details_clear_selection [OF h1 h2 h3] h1 h2 h3 h4 h5
    by (simp add: js_def)
qed






text \<open>
  C5. With a query that is blank after trimming (empty, or white space only),
  \<^verbatim>\<open>fetchMovies\<close> issues no request and returns the state it was given, whatever the
  page and \<open>append\<close> arguments are.
\<close>

theorem blank_query_is_noop:
  "trim (search s) = [] \<Longrightarrow> fetchMovies net p a s = (s, [])"
  by (simp add: fetchMovies_def)

theorem blank_query_is_noop_witness:
  "trim (search (setSearch (js ''  '') loaded)) = []
   \<and> fetchMovies demo_net 1 False (setSearch (js ''  '') loaded)
       = (setSearch (js ''  '') loaded, [])"
proof -
  have h: "trim (search (setSearch (js ''  '') loaded)) = []"
    by (simp add: setSearch_def js_def trim_def is_ws_def)
  show ?thesis
    using blank_query_is_noop [OF h, of demo_net 1 False] h by simp
qed

text \<open>
  C6. \<^verbatim>\<open>posterFor\<close> is a function of its argument alone. It returns the placeholder for
  \<^verbatim>\<open>undefined\<close>, for the empty string and for the text \<open>N/A\<close>, and returns every other
  non-empty text unchanged; the comparison with \<open>N/A\<close> is exact, so \<open>n/a\<close> is returned
  as it is.
\<close>

theorem posterFor_spec:
  "posterFor None = placeholder
   \<and> posterFor (Some []) = placeholder
   \<and> posterFor (Some (js ''N/A'')) = placeholder
   \<and> (\<forall>p. p \<noteq> [] \<and> p \<noteq> js ''N/A'' \<longrightarrow> posterFor (Some p) = p)"
  by simp

theorem posterFor_spec_witness:
  "js ''n/a'' \<noteq> [] \<and> js ''n/a'' \<noteq> js ''N/A'' \<and> posterFor (Some (js ''n/a'')) = js ''n/a''"
proof -
  have h: "js ''n/a'' \<noteq> [] \<and> js ''n/a'' \<noteq> js ''N/A''"
    by (simp add: js_def)
  from posterFor_spec have "\<forall>p. p \<noteq> [] \<and> p \<noteq> js ''N/A'' \<longrightarrow> posterFor (Some p) = p"
    by blast
  then have "js ''n/a'' \<noteq> [] \<and> js ''n/a'' \<noteq> js ''N/A'' \<longrightarrow> posterFor (Some (js ''n/a'')) = js ''n/a''"
    by (rule spec)
  with h show ?thesis by blast
qed

text \<open>
  C7. Whenever \<^verbatim>\<open>fetchMovies\<close> has issued a request, \<open>loadingMovies\<close> is false in the
  state it leaves, and whenever \<^verbatim>\<open>fetchMovieDetails\<close> has issued a request,
  \<open>loadingDetails\<close> is false in the state it leaves. The network is arbitrary, so this
  covers a successful response, an empty one, a reported failure and an exception.
\<close>

theorem loading_flags_cleared:
  "(snd (fetchMovies net p a s) \<noteq> [] \<longrightarrow> \<not> loadingMovies (fst (fetchMovies net p a s)))
   \<and> (snd (fetchMovieDetails net' ident s) \<noteq> []
        \<longrightarrow> \<not> loadingDetails (fst (fetchMovieDetails net' ident s)))"
  by (simp add: fetchMovies_def fetchMovieDetails_def Let_def)

theorem loading_flags_cleared_witness:
  "snd (fetchMovies demo_net 1 False (setSearch (js ''q'') (loaded\<lparr>loadingMovies := True\<rparr>))) \<noteq> []
   \<and> demo_net (SearchRequest (js ''q'') 1) = Thrown
   \<and> \<not> loadingMovies (fst (fetchMovies demo_net 1 False
         (setSearch (js ''q'') (loaded\<lparr>loadingMovies := True\<rparr>))))
   \<and> snd (fetchMovieDetails demo_details (js ''tt9'') (loaded\<lparr>loadingDetails := True\<rparr>)) \<noteq> []
   \<and> demo_details (DetailRequest (js ''tt9'')) = Thrown
   \<and> \<not> loadingDetails (fst (fetchMovieDetails demo_details (js ''tt9'')
         (loaded\<lparr>loadingDetails := True\<rparr>)))"
proof -
  have h1: "snd (fetchMovies demo_net 1 False
      (setSearch (js ''q'') (loaded\<lparr>loadingMovies := True\<rparr>))) \<noteq> []"
    by (simp add: fetchMovies_requests setSearch_def js_def trim_def is_ws_def)
  have h2: "snd (fetchMovieDetails demo_details (js ''tt9'')
      (loaded\<lparr>loadingDetails := True\<rparr>)) \<noteq> []"
    by (simp add: fetchMovieDetails_requests js_def)
  have h3: "demo_net (SearchRequest (js ''q'') 1) = Thrown"
    and h4: "demo_details (DetailRequest (js ''tt9'')) = Thrown"
    by (simp_all add: js_def)
  show ?thesis
    using loading_flags_cleared [of demo_net 1 False
        "setSearch (js ''q'') (loaded\<lparr>loadingMovies := True\<rparr>)"
        demo_details "js ''tt9''"]
      loading_flags_cleared [of demo_net 1 False "loaded\<lparr>loadingDetails := True\<rparr>"
        demo_details "js ''tt9''"]
      h1 h2 h3 h4
    by simp
qed

text \<open>
  C8. Closing the details sets the selection to \<^verbatim>\<open>null\<close> and changes nothing else,
  whatever the state was; doing it twice is the same as doing it once; the close button,
  the click on the overlay and the Escape key make the same change.
\<close>

theorem closing_details:
  "close_onClick s = s\<lparr> selectedMovie := None \<rparr>
   \<and> selectedMovie (close_onClick s) = None
   \<and> close_onClick (close_onClick s) = close_onClick s
   \<and> overlay_onClick s = close_onClick s
   \<and> onKey (js ''Escape'') s = close_onClick s"
  by (simp add: close_onClick_def overlay_onClick_def onKey_def setSelectedMovie_def)

theorem closing_details_witness:
  "selectedMovie loaded = Some detailA
   \<and> selectedMovie (close_onClick loaded) = None
   \<and> close_onClick (close_onClick loaded) = close_onClick loaded
   \<and> overlay_onClick loaded = close_onClick loaded
   \<and> onKey (js ''Escape'') loaded = close_onClick loaded"
proof -
  have h: "selectedMovie loaded = Some detailA"
    by (simp add: loaded_def)
  show ?thesis
    using closing_details [of loaded] h by blast
qed

text \<open>
  C9. A search request answered with \<^verbatim>\<open>Response: "False"\<close> leaves the recorded page as
  it was, and the query text, the selection and the detail flag with it: only the list
  flag, the error, the collection and the total are written. The next page that a following \<^verbatim>\<open>loadMore\<close> computes is therefore the
  page from before the failure plus one (that \<^verbatim>\<open>loadMore\<close> then returns without a
  request, the collection being empty and the total zero).
\<close>

theorem failed_search_keeps_page:
  assumes "snd (fetchMovies net p a s) = [r]" and "net r = Resolved d"
    and "resp_Response d = js ''False''"
  shows "page (fst (fetchMovies net p a s)) = page s
       \<and> loadMore_next (fst (fetchMovies net p a s)) = page s + 1
       \<and> search (fst (fetchMovies net p a s)) = search s
       \<and> selectedMovie (fst (fetchMovies net p a s)) = selectedMovie s
       \<and> loadingDetails (fst (fetchMovies net p a s)) = loadingDetails s
       \<and> loadMore net' (fst (fetchMovies net p a s)) = (fst (fetchMovies net p a s), [])"
  using fetchMovies_resolved_False [OF assms]
  by (simp add: loadMore_next_def loadMore_def)

theorem failed_search_keeps_page_witness:
  "snd (fetchMovies demo_net 7 True (setSearch (js ''x'') loaded)) = [SearchRequest (js ''x'') 7]
   \<and> demo_net (SearchRequest (js ''x'') 7) = Resolved not_found
   \<and> resp_Response not_found = js ''False''
   \<and> page (fst (fetchMovies demo_net 7 True (setSearch (js ''x'') loaded))) = 1
   \<and> loadMore_next (fst (fetchMovies demo_net 7 True (setSearch (js ''x'') loaded))) = 2"
proof -
  have h1: "snd (fetchMovies demo_net 7 True (setSearch (js ''x'') loaded))
      = [SearchRequest (js ''x'') 7]"
    by (simp add: fetchMovies_requests setSearch_def loaded_def js_def trim_def is_ws_def)
  have h2: "demo_net (SearchRequest (js ''x'') 7) = Resolved not_found"
    by (simp add: js_def)
  have h3: "resp_Response not_found = js ''False''"
    by (simp add: not_found_def)
  have h4: "page (setSearch (js ''x'') loaded) = 1"
    by (simp add: setSearch_def loaded_def)
  show ?thesis
    using failed_search_keeps_page [OF h1 h2 h3] h1 h2 h3 h4 by simp
qed



end
